theory Spec2Isabelle
  imports Main "HOL-Library.Multiset"
begin

section \<open>Fatal outcomes\<close>

text \<open>
  \<^verbatim>\<open>app/app.go\<close> ends a run in two ways: \<^verbatim>\<open>panic(err)\<close> (the init chainer, and the
  registries it builds on) and \<^verbatim>\<open>cmn.Exit(err.Error())\<close> (a failed load). Both are values
  here; an error is its message.
\<close>

datatype fatal = Panic string | Exit string

definition fatal_bind :: "fatal + 'a \<Rightarrow> ('a \<Rightarrow> fatal + 'b) \<Rightarrow> fatal + 'b" where
  "fatal_bind m f = (case m of Inl e \<Rightarrow> Inl e | Inr x \<Rightarrow> f x)"

text \<open>
  A call on a registry (the codec, the mounted stores, the route table) returns its own
  panic, if it panics, together with the registry as the call leaves it. In a sequence of
  such calls a panic ends the run; otherwise the run goes on with the registry returned.
\<close>

definition attempt :: "fatal option \<times> 'a \<Rightarrow> ('a \<Rightarrow> fatal + 'b) \<Rightarrow> fatal + 'b" where
  "attempt m f = (case m of (Some e, _) \<Rightarrow> Inl e | (None, x) \<Rightarrow> f x)"

section \<open>Codec registry\<close>

text \<open>
  One entry per registration call of \<^verbatim>\<open>MakeCodec\<close>. The seven module-level calls
  (\<^verbatim>\<open>codec.RegisterCrypto\<close>, \<^verbatim>\<open>sdk.RegisterCodec\<close>, \<^verbatim>\<open>cool.RegisterCodec\<close>, ...) register
  types declared in other packages; each is recorded as one batch under the package's name.
\<close>

datatype codec_entry =
    RegisterBatch string
  | RegisterInterface string
  | RegisterConcrete string string

record codec =
  cdc_entries :: "codec_entry list"
  cdc_sealed :: bool

definition codec_New :: codec where
  "codec_New = \<lparr>cdc_entries = [], cdc_sealed = False\<rparr>"

text \<open>
  Modelled from the spec: the codec registry's \<^verbatim>\<open>register_*\<close> and \<^verbatim>\<open>seal\<close> (the codec
  package is not part of \<^verbatim>\<open>app/app.go\<close>). "After seal(), no further registration is
  permitted"; a registration on a sealed codec "fails with a configuration error and leaves
  the existing registry unchanged".
\<close>

definition codec_register :: "codec_entry \<Rightarrow> codec \<Rightarrow> fatal option \<times> codec" where
  "codec_register e c =
     (if cdc_sealed c then (Some (Panic ''codec: registration on sealed codec''), c)
      else (None, c\<lparr>cdc_entries := cdc_entries c @ [e]\<rparr>))"

definition codec_Seal :: "codec \<Rightarrow> codec" where
  "codec_Seal c = c\<lparr>cdc_sealed := True\<rparr>"

text \<open>\<^verbatim>\<open>MakeCodec\<close>: create the codec, run the nine registrations in order, seal, return.\<close>

definition MakeCodec :: "fatal + codec" where
  "MakeCodec =
     attempt (codec_register (RegisterBatch ''crypto'') codec_New) (\<lambda>c1.
     attempt (codec_register (RegisterBatch ''sdk'') c1) (\<lambda>c2.
     attempt (codec_register (RegisterBatch ''cool'') c2) (\<lambda>c3.
     attempt (codec_register (RegisterBatch ''pow'') c3) (\<lambda>c4.
     attempt (codec_register (RegisterBatch ''bank'') c4) (\<lambda>c5.
     attempt (codec_register (RegisterBatch ''ibc'') c5) (\<lambda>c6.
     attempt (codec_register (RegisterBatch ''simplestaking'') c6) (\<lambda>c7.
     attempt (codec_register (RegisterInterface ''auth.Account'') c7) (\<lambda>c8.
     attempt (codec_register (RegisterConcrete ''types.AppAccount'' ''xpx-cosmos/Account'') c8) (\<lambda>c9.
     Inr (codec_Seal c9))))))))))"

section \<open>Store keys and keepers\<close>

text \<open>
  The application holds its store keys by pointer (\<^verbatim>\<open>*sdk.KVStoreKey\<close>,
  \<^verbatim>\<open>*sdk.TransientStoreKey\<close>). A key is the object's reference, its name and its kind;
  each constructor call makes a new object, so the caller supplies a fresh reference.
\<close>

record store_key =
  key_ref :: nat
  key_name :: string
  key_transient :: bool

definition NewKVStoreKey :: "nat \<Rightarrow> string \<Rightarrow> store_key" where
  "NewKVStoreKey r name = \<lparr>key_ref = r, key_name = name, key_transient = False\<rparr>"

definition NewTransientStoreKey :: "nat \<Rightarrow> string \<Rightarrow> store_key" where
  "NewTransientStoreKey r name = \<lparr>key_ref = r, key_name = name, key_transient = True\<rparr>"

text \<open>
  Constants that \<^verbatim>\<open>app/app.go\<close> imports from the SDK packages; their values are not
  in the file, so they are parameters of the construction.
\<close>

record sdk_consts =
  bam_MainStoreKey :: string
  auth_StoreKey :: string
  staking_StoreKey :: string
  auth_DefaultParamspace :: string
  cool_DefaultCodespace :: nat
  pow_DefaultCodespace :: nat
  ibc_DefaultCodespace :: nat
  simplestaking_DefaultCodespace :: nat

text \<open>Each keeper is the tuple of arguments its constructor receives.\<close>

record params_keeper =
  pk_cdc :: codec
  pk_key :: store_key
  pk_tkey :: store_key

record subspace =
  ss_keeper :: params_keeper
  ss_name :: string

definition Subspace :: "params_keeper \<Rightarrow> string \<Rightarrow> subspace" where
  "Subspace k name = \<lparr>ss_keeper = k, ss_name = name\<rparr>"

datatype account_proto = ProtoAppAccount

record account_keeper =
  ak_cdc :: codec
  ak_key :: store_key
  ak_paramSubspace :: subspace
  ak_proto :: account_proto

record bank_keeper =
  bk_ak :: account_keeper

record cool_keeper =
  ck_key :: store_key
  ck_bank :: bank_keeper
  ck_codespace :: nat

record pow_config =
  pc_denomination :: string
  pc_reward :: int

record pow_keeper =
  pwk_key :: store_key
  pwk_config :: pow_config
  pwk_bank :: bank_keeper
  pwk_codespace :: nat

record ibc_mapper =
  im_cdc :: codec
  im_key :: store_key
  im_codespace :: nat

record staking_keeper =
  sk_key :: store_key
  sk_bank :: bank_keeper
  sk_codespace :: nat

text \<open>
  \<^verbatim>\<open>feeCollectionKeeper\<close> is declared in the struct and never assigned: the ante handler
  receives its zero value.
\<close>

record fee_collection_keeper =
  fck_key :: "store_key option"
  fck_cdc :: "codec option"

definition zero_FeeCollectionKeeper :: fee_collection_keeper where
  "zero_FeeCollectionKeeper = \<lparr>fck_key = None, fck_cdc = None\<rparr>"

section \<open>The base application\<close>

text \<open>
  Handlers, the ante handler and the init chainer are closures over keepers; the
  application stores which closure was installed, and what running one does is given
  separately. Of the arguments of \<^verbatim>\<open>bam.NewBaseApp\<close> the name is kept; the logger, the
  database and the transaction decoder are not read by anything below.
\<close>

datatype handler =
    BankHandler bank_keeper
  | IbcHandler ibc_mapper bank_keeper
  | SimplestakingHandler staking_keeper

datatype ante_handler = AuthAnteHandler account_keeper fee_collection_keeper

datatype init_chainer = InitChainerFn cool_keeper pow_keeper

record base_app =
  ba_name :: string
  ba_stores :: "store_key list"
  ba_router :: "(string \<times> handler) list"
  ba_initChainer :: "init_chainer option"
  ba_anteHandler :: "ante_handler option"
  ba_sealed :: bool

definition NewBaseApp :: "string \<Rightarrow> base_app" where
  "NewBaseApp name =
     \<lparr>ba_name = name, ba_stores = [], ba_router = [], ba_initChainer = None,
      ba_anteHandler = None, ba_sealed = False\<rparr>"

text \<open>
  Modelled from the spec: the store registry's \<^verbatim>\<open>mount\<close>, the router's \<^verbatim>\<open>add_route\<close>
  and the application's \<^verbatim>\<open>seal\<close> (the base application is not part of \<^verbatim>\<open>app/app.go\<close>).
  "Mounting after sealing fails fatally"; \<^verbatim>\<open>add_route\<close> "fails fatally if name already
  registered or if the table is sealed"; a registration after sealing "fails with a
  configuration error and leaves the existing registry unchanged".
\<close>

definition MountStores :: "store_key list \<Rightarrow> base_app \<Rightarrow> fatal option \<times> base_app" where
  "MountStores keys b =
     (if ba_sealed b then (Some (Panic ''MountStores on sealed application''), b)
      else (None, b\<lparr>ba_stores := ba_stores b @ keys\<rparr>))"

definition AddRoute :: "string \<Rightarrow> handler \<Rightarrow> base_app \<Rightarrow> fatal option \<times> base_app" where
  "AddRoute r h b =
     (if ba_sealed b then (Some (Panic ''AddRoute on sealed application''), b)
      else if r \<in> set (map fst (ba_router b))
        then (Some (Panic ''route already registered''), b)
      else (None, b\<lparr>ba_router := ba_router b @ [(r, h)]\<rparr>))"

definition SetInitChainer :: "init_chainer \<Rightarrow> base_app \<Rightarrow> base_app" where
  "SetInitChainer ic b = b\<lparr>ba_initChainer := Some ic\<rparr>"

definition SetAnteHandler :: "ante_handler \<Rightarrow> base_app \<Rightarrow> base_app" where
  "SetAnteHandler ah b = b\<lparr>ba_anteHandler := Some ah\<rparr>"

definition Seal :: "base_app \<Rightarrow> base_app" where
  "Seal b = b\<lparr>ba_sealed := True\<rparr>"

section \<open>The application\<close>

definition appName :: string where
  "appName = ''XpxCosmos''"

record democoin_app =
  BaseApp :: base_app
  cdc :: codec
  capKeyMainStore :: store_key
  capKeyAccountStore :: store_key
  capKeyPowStore :: store_key
  capKeyIBCStore :: store_key
  capKeyStakingStore :: store_key
  keyParams :: store_key
  tkeyParams :: store_key
  paramsKeeper :: params_keeper
  feeCollectionKeeper :: fee_collection_keeper
  bankKeeper :: bank_keeper
  coolKeeper :: cool_keeper
  powKeeper :: pow_keeper
  ibcMapper :: ibc_mapper
  stakingKeeper :: staking_keeper
  accountKeeper :: account_keeper

text \<open>
  \<^verbatim>\<open>NewDemocoinApp\<close>, statement by statement. The seven keys are allocated in the order of
  the struct literal (references 0 to 6). The source fills the fields of the application
  object one assignment at a time; here each assignment binds a name, and the object is
  assembled where it is returned. \<^verbatim>\<open>coolKeeper\<close> and \<^verbatim>\<open>powKeeper\<close> are fields because the
  constructor assigns them. \<^verbatim>\<open>LoadLatestVersion\<close> belongs to the base application and
  reads the database: it is a parameter, given the database, the mounted keys and the main
  key, and returning the error if there is one. \<^verbatim>\<open>cmn.Exit\<close> ends the process.
\<close>

definition NewDemocoinApp ::
  "sdk_consts \<Rightarrow> ('db \<Rightarrow> store_key list \<Rightarrow> store_key \<Rightarrow> string option) \<Rightarrow> 'lg \<Rightarrow> 'db
     \<Rightarrow> fatal + democoin_app" where
  "NewDemocoinApp K LoadLatestVersion logger db =
     fatal_bind MakeCodec (\<lambda>cdc0.
     let kMain = NewKVStoreKey 0 (bam_MainStoreKey K);
         kAcc = NewKVStoreKey 1 (auth_StoreKey K);
         kPow = NewKVStoreKey 2 ''pow'';
         kIBC = NewKVStoreKey 3 ''ibc'';
         kStaking = NewKVStoreKey 4 (staking_StoreKey K);
         kParams = NewKVStoreKey 5 ''params'';
         tkParams = NewTransientStoreKey 6 ''transient_params'';
         pK = \<lparr>pk_cdc = cdc0, pk_key = kParams, pk_tkey = tkParams\<rparr>;
         aK = \<lparr>ak_cdc = cdc0, ak_key = kAcc,
               ak_paramSubspace = Subspace pK (auth_DefaultParamspace K),
               ak_proto = ProtoAppAccount\<rparr>;
         bK = \<lparr>bk_ak = aK\<rparr>;
         cK = \<lparr>ck_key = kMain, ck_bank = bK, ck_codespace = cool_DefaultCodespace K\<rparr>;
         pwK = \<lparr>pwk_key = kPow,
                pwk_config = \<lparr>pc_denomination = ''pow'', pc_reward = 1\<rparr>,
                pwk_bank = bK, pwk_codespace = pow_DefaultCodespace K\<rparr>;
         iM = \<lparr>im_cdc = cdc0, im_key = kIBC, im_codespace = ibc_DefaultCodespace K\<rparr>;
         sK = \<lparr>sk_key = kStaking, sk_bank = bK,
               sk_codespace = simplestaking_DefaultCodespace K\<rparr>;
         fK = zero_FeeCollectionKeeper
     in
     attempt (AddRoute ''bank'' (BankHandler bK) (NewBaseApp appName)) (\<lambda>b1.
     attempt (AddRoute ''ibc'' (IbcHandler iM bK) b1) (\<lambda>b2.
     attempt (AddRoute ''simplestaking'' (SimplestakingHandler sK) b2) (\<lambda>b3.
     let b4 = SetInitChainer (InitChainerFn cK pwK) b3 in
     attempt (MountStores [kMain, kAcc, kPow, kIBC, kStaking] b4) (\<lambda>b5.
     let b6 = SetAnteHandler (AuthAnteHandler aK fK) b5 in
     (case LoadLatestVersion db (ba_stores b6) kMain of
        Some err \<Rightarrow> Inl (Exit err)
      | None \<Rightarrow>
          Inr \<lparr>BaseApp = Seal b6, cdc = cdc0,
               capKeyMainStore = kMain, capKeyAccountStore = kAcc, capKeyPowStore = kPow,
               capKeyIBCStore = kIBC, capKeyStakingStore = kStaking,
               keyParams = kParams, tkeyParams = tkParams,
               paramsKeeper = pK, feeCollectionKeeper = fK, bankKeeper = bK,
               coolKeeper = cK, powKeeper = pwK, ibcMapper = iM, stakingKeeper = sK,
               accountKeeper = aK\<rparr>))))))"

text \<open>
  The keys handed to \<^verbatim>\<open>MountStores\<close> and the main key, as \<^verbatim>\<open>LoadLatestVersion\<close>
  receives them.
\<close>

abbreviation load_result ::
  "sdk_consts \<Rightarrow> ('db \<Rightarrow> store_key list \<Rightarrow> store_key \<Rightarrow> string option) \<Rightarrow> 'db \<Rightarrow> string option" where
  "load_result K load db \<equiv>
     load db [NewKVStoreKey 0 (bam_MainStoreKey K), NewKVStoreKey 1 (auth_StoreKey K),
              NewKVStoreKey 2 ''pow'', NewKVStoreKey 3 ''ibc'',
              NewKVStoreKey 4 (staking_StoreKey K)]
          (NewKVStoreKey 0 (bam_MainStoreKey K))"

section \<open>Genesis documents, accounts and the stores\<close>

text \<open>
  An address (\<^verbatim>\<open>sdk.AccAddress\<close>, a byte string) is read as a number: only its equality
  and the key order of the account store are used.
\<close>

type_synonym address = nat

record coin =
  denom :: string
  amount :: int

text \<open>The boundary shape \<^verbatim>\<open>types.GenesisAccount\<close>, with the two fields the file uses.\<close>

record genesis_account =
  Address :: address
  Coins :: "coin list"

text \<open>
  Modelled from the spec: the internal account (the account type is declared outside
  \<^verbatim>\<open>app/app.go\<close>). "Account: address (fixed-width identifier) + balance (set of typed
  amounts) + sequence/auth metadata."
\<close>

record account =
  acc_address :: address
  acc_coins :: "coin list"
  acc_sequence :: nat

definition GetAddress :: "account \<Rightarrow> address" where
  "GetAddress acc = acc_address acc"

definition GetCoins :: "account \<Rightarrow> coin list" where
  "GetCoins acc = acc_coins acc"

text \<open>
  \<^verbatim>\<open>types.GenesisState\<close> as the file builds and reads it. The shapes of the cool and the
  proof-of-work genesis blocks are declared in their modules; they are type parameters.
\<close>

record ('cg, 'pg) genesis_state =
  Accounts :: "genesis_account list"
  POWGenesis :: 'pg
  CoolGenesis :: 'cg

type_synonym account_store = "(address \<times> account) list"

type_synonym kvstore = "(string \<times> string) list"

text \<open>
  What a context gives access to: one store per mounted key (the account store under
  \<^verbatim>\<open>capKeyAccountStore\<close>, the cool module's under \<^verbatim>\<open>capKeyMainStore\<close>, and so on). The
  contents of the cool and proof-of-work stores are type parameters.
\<close>

record ('cs, 'ps) ctx =
  accountStore :: account_store
  mainStore :: 'cs
  powStore :: 'ps
  ibcStore :: kvstore
  stakingStore :: kvstore

text \<open>
  Modelled from the spec: the account keeper (it is not part of \<^verbatim>\<open>app/app.go\<close>).
  "Invariant: address uniqueness; set is idempotent upsert"; \<^verbatim>\<open>iterate_accounts\<close> "produces
  a sequence of accounts in store-native order; visitor may request early stop". The store
  is kept ordered by address, one entry per address.
\<close>

fun upsert :: "address \<Rightarrow> account \<Rightarrow> account_store \<Rightarrow> account_store" where
  "upsert k v [] = [(k, v)]"
| "upsert k v ((k', v') # rest) =
     (if k < k' then (k, v) # (k', v') # rest
      else if k = k' then (k, v) # rest
      else (k', v') # upsert k v rest)"

definition SetAccount ::
  "account_keeper \<Rightarrow> ('cs, 'ps) ctx \<Rightarrow> account \<Rightarrow> ('cs, 'ps) ctx" where
  "SetAccount ak c acc = c\<lparr>accountStore := upsert (GetAddress acc) acc (accountStore c)\<rparr>"

fun iterate :: "('s \<Rightarrow> account \<Rightarrow> 's \<times> bool) \<Rightarrow> account list \<Rightarrow> 's \<Rightarrow> 's" where
  "iterate visit [] s = s"
| "iterate visit (a # rest) s =
     (case visit s a of (s', stop) \<Rightarrow> if stop then s' else iterate visit rest s')"

definition IterateAccounts ::
  "account_keeper \<Rightarrow> ('cs, 'ps) ctx \<Rightarrow> ('s \<Rightarrow> account \<Rightarrow> 's \<times> bool) \<Rightarrow> 's \<Rightarrow> 's" where
  "IterateAccounts ak c visit s = iterate visit (map snd (accountStore c)) s"

text \<open>
  Modelled from the spec: store access by capability. "Each store is exclusively owned by
  its declaring module; no component may read or write another module's store directly,
  only through that module's keeper operations." The cool keeper is built with
  \<^verbatim>\<open>capKeyMainStore\<close> and the bank keeper, the proof-of-work keeper with
  \<^verbatim>\<open>capKeyPowStore\<close> and the bank keeper: a call into either module sees the module's own
  store and, through the bank keeper, the account store, and nothing else.
\<close>

definition cool_view :: "('cs, 'ps) ctx \<Rightarrow> account_store \<times> 'cs" where
  "cool_view c = (accountStore c, mainStore c)"

definition put_cool_view :: "account_store \<times> 'cs \<Rightarrow> ('cs, 'ps) ctx \<Rightarrow> ('cs, 'ps) ctx" where
  "put_cool_view v c = c\<lparr>accountStore := fst v, mainStore := snd v\<rparr>"

definition pow_view :: "('cs, 'ps) ctx \<Rightarrow> account_store \<times> 'ps" where
  "pow_view c = (accountStore c, powStore c)"

definition put_pow_view :: "account_store \<times> 'ps \<Rightarrow> ('cs, 'ps) ctx \<Rightarrow> ('cs, 'ps) ctx" where
  "put_pow_view v c = c\<lparr>accountStore := fst v, powStore := snd v\<rparr>"

section \<open>Chain initialization\<close>

text \<open>
  The functions the init chainer calls and \<^verbatim>\<open>app/app.go\<close> does not define; each returns
  its error (\<open>Inl\<close>) or its result.
\<close>

record ('cg, 'pg, 'cs, 'ps) init_env =
  UnmarshalJSON :: "codec \<Rightarrow> string \<Rightarrow> string + ('cg, 'pg) genesis_state"
  ToAppAccount :: "genesis_account \<Rightarrow> string + account"
  cool_InitGenesis ::
    "account_store \<times> 'cs \<Rightarrow> cool_keeper \<Rightarrow> 'cg \<Rightarrow> string + account_store \<times> 'cs"
  pow_InitGenesis ::
    "account_store \<times> 'ps \<Rightarrow> pow_keeper \<Rightarrow> 'pg \<Rightarrow> string + account_store \<times> 'ps"

record request_init_chain =
  AppStateBytes :: string

datatype response_init_chain = ResponseInitChain

text \<open>The loop over \<^verbatim>\<open>genesisState.Accounts\<close>: convert, panic on error, store.\<close>

fun init_accounts ::
  "('cg, 'pg, 'cs, 'ps) init_env \<Rightarrow> account_keeper \<Rightarrow> ('cs, 'ps) ctx
     \<Rightarrow> genesis_account list \<Rightarrow> fatal + ('cs, 'ps) ctx" where
  "init_accounts E ak c [] = Inr c"
| "init_accounts E ak c (gacc # rest) =
     (case ToAppAccount E gacc of
        Inl err \<Rightarrow> Inl (Panic err)
      | Inr acc \<Rightarrow> init_accounts E ak (SetAccount ak c acc) rest)"

text \<open>
  \<^verbatim>\<open>initChainerFn\<close>. The two keeper arguments are not used by the closure, which reads
  the application's own keepers.
\<close>

definition initChainerFn ::
  "('cg, 'pg, 'cs, 'ps) init_env \<Rightarrow> democoin_app \<Rightarrow> cool_keeper \<Rightarrow> pow_keeper
     \<Rightarrow> ('cs, 'ps) ctx \<Rightarrow> request_init_chain
     \<Rightarrow> fatal + (('cs, 'ps) ctx \<times> response_init_chain)" where
  "initChainerFn E app coolKeeper' powKeeper' c req =
     (case UnmarshalJSON E (cdc app) (AppStateBytes req) of
        Inl err \<Rightarrow> Inl (Panic err)
      | Inr genesisState \<Rightarrow>
          fatal_bind (init_accounts E (accountKeeper app) c (Accounts genesisState)) (\<lambda>c1.
          case cool_InitGenesis E (cool_view c1) (coolKeeper app) (CoolGenesis genesisState) of
            Inl err \<Rightarrow> Inl (Panic err)
          | Inr v2 \<Rightarrow>
              (case pow_InitGenesis E (pow_view (put_cool_view v2 c1)) (powKeeper app)
                      (POWGenesis genesisState) of
                 Inl err \<Rightarrow> Inl (Panic err)
               | Inr v3 \<Rightarrow>
                   Inr (put_pow_view v3 (put_cool_view v2 c1), ResponseInitChain))))"

section \<open>State export\<close>

record ('cg, 'pg, 'cs, 'ps) export_env =
  pow_ExportGenesis :: "account_store \<times> 'ps \<Rightarrow> pow_keeper \<Rightarrow> 'pg"
  cool_ExportGenesis :: "account_store \<times> 'cs \<Rightarrow> cool_keeper \<Rightarrow> 'cg"
  MarshalJSONIndent :: "codec \<Rightarrow> ('cg, 'pg) genesis_state \<Rightarrow> string + string"

record genesis_validator =
  gv_pub_key :: string
  gv_power :: int
  gv_name :: string

text \<open>The visitor closure: append the account's address and coins, never stop.\<close>

definition appendAccount :: "genesis_account list \<Rightarrow> account \<Rightarrow> genesis_account list \<times> bool" where
  "appendAccount accounts acc =
     (accounts @ [\<lparr>Address = GetAddress acc, Coins = GetCoins acc\<rparr>], False)"

text \<open>The document \<^verbatim>\<open>genState\<close> that the export builds before it serializes.\<close>

definition exportGenState ::
  "('cg, 'pg, 'cs, 'ps) export_env \<Rightarrow> democoin_app \<Rightarrow> ('cs, 'ps) ctx
     \<Rightarrow> ('cg, 'pg) genesis_state" where
  "exportGenState X app c =
     (let accounts = IterateAccounts (accountKeeper app) c appendAccount []
      in \<lparr>Accounts = accounts,
          POWGenesis = pow_ExportGenesis X (pow_view c) (powKeeper app),
          CoolGenesis = cool_ExportGenesis X (cool_view c) (coolKeeper app)\<rparr>)"

text \<open>
  \<^verbatim>\<open>ExportAppStateAndValidators\<close> returns \<^verbatim>\<open>(appState, validators, err)\<close>. The named
  result \<^verbatim>\<open>validators\<close> is never assigned: it is the nil slice, the empty list here.
  \<^verbatim>\<open>None\<close> is a nil \<^verbatim>\<open>appState\<close> or a nil error.
\<close>

definition ExportAppStateAndValidators ::
  "('cg, 'pg, 'cs, 'ps) export_env \<Rightarrow> democoin_app \<Rightarrow> ('cs, 'ps) ctx
     \<Rightarrow> string option \<times> genesis_validator list \<times> string option" where
  "ExportAppStateAndValidators X app c =
     (let validators = [] in
      case MarshalJSONIndent X (cdc app) (exportGenState X app c) of
        Inl err \<Rightarrow> (None, [], Some err)
      | Inr appState \<Rightarrow> (Some appState, validators, None))"

section \<open>Transaction processing\<close>

record tx =
  tx_route :: string
  tx_msg :: string

datatype event = AnteInvoked ante_handler | HandlerInvoked string handler

text \<open>
  Modelled from the spec: the router's \<^verbatim>\<open>dispatch\<close> and the pre-dispatch gate (the base
  application's transaction path is not part of \<^verbatim>\<open>app/app.go\<close>). Dispatch "looks up
  exactly one handler; unknown route name fails with a no such route error"; it "is always
  preceded by a single invocation of the Ante Handler collaborator; if the Ante Handler
  fails, the route handler is never invoked and the transaction is rejected with the Ante
  Handler's error". What a handler does to the state is a parameter; the result carries
  the invocations made, in order. An application with no ante handler installed goes to
  dispatch directly.
\<close>

definition dispatch ::
  "(handler \<Rightarrow> 's \<Rightarrow> string \<Rightarrow> string + 's) \<Rightarrow> base_app \<Rightarrow> 's \<Rightarrow> tx
     \<Rightarrow> (string + 's) \<times> event list" where
  "dispatch run_handler b s t =
     (case map_of (ba_router b) (tx_route t) of
        None \<Rightarrow> (Inl ''no such route'', [])
      | Some h \<Rightarrow> (run_handler h s (tx_msg t), [HandlerInvoked (tx_route t) h]))"

definition runTx ::
  "(ante_handler \<Rightarrow> 's \<Rightarrow> tx \<Rightarrow> string + 's) \<Rightarrow> (handler \<Rightarrow> 's \<Rightarrow> string \<Rightarrow> string + 's)
     \<Rightarrow> base_app \<Rightarrow> 's \<Rightarrow> tx \<Rightarrow> (string + 's) \<times> event list" where
  "runTx run_ante run_handler b s t =
     (case ba_anteHandler b of
        None \<Rightarrow> dispatch run_handler b s t
      | Some ah \<Rightarrow>
          (case run_ante ah s t of
             Inl err \<Rightarrow> (Inl err, [AnteInvoked ah])
           | Inr s1 \<Rightarrow>
               (case dispatch run_handler b s1 t of
                  (r, evs) \<Rightarrow> (r, AnteInvoked ah # evs))))"

fun is_ante :: "event \<Rightarrow> bool" where
  "is_ante (AnteInvoked _) = True"
| "is_ante (HandlerInvoked _ _) = False"

section \<open>The genesis functions of the modules, as the spec describes them\<close>

text \<open>
  Modelled from the spec: \<^verbatim>\<open>GenesisAccount.ToAppAccount\<close> (declared in the types package,
  outside \<^verbatim>\<open>app/app.go\<close>). The boundary shape "address + ordered list of typed coin
  amounts" is carried into the internal account, whose further field starts at zero.
\<close>

definition ToAppAccount_spec :: "genesis_account \<Rightarrow> string + account" where
  "ToAppAccount_spec gacc =
     Inr \<lparr>acc_address = Address gacc, acc_coins = Coins gacc, acc_sequence = 0\<rparr>"

text \<open>
  Modelled from the spec: \<^verbatim>\<open>InitGenesis\<close> and \<^verbatim>\<open>ExportGenesis\<close> of the cool and the
  proof-of-work modules (declared in their packages, outside \<^verbatim>\<open>app/app.go\<close>). The keeper
  "maintains difficulty/count parameters in its own store; exposes init_genesis(config)
  and export_genesis() -> config forming one half of the genesis round trip": init stores
  the configuration, export reads it back.
\<close>

definition module_InitGenesis_spec ::
  "account_store \<times> 'g \<Rightarrow> 'k \<Rightarrow> 'g \<Rightarrow> string + account_store \<times> 'g" where
  "module_InitGenesis_spec v k g = Inr (fst v, g)"

definition module_ExportGenesis_spec :: "account_store \<times> 'g \<Rightarrow> 'k \<Rightarrow> 'g" where
  "module_ExportGenesis_spec v k = snd v"

definition spec_init_env ::
  "(codec \<Rightarrow> string \<Rightarrow> string + ('cg, 'pg) genesis_state) \<Rightarrow> ('cg, 'pg, 'cg, 'pg) init_env" where
  "spec_init_env decode =
     \<lparr>UnmarshalJSON = decode, ToAppAccount = ToAppAccount_spec,
      cool_InitGenesis = module_InitGenesis_spec, pow_InitGenesis = module_InitGenesis_spec\<rparr>"

definition spec_export_env ::
  "(codec \<Rightarrow> ('cg, 'pg) genesis_state \<Rightarrow> string + string) \<Rightarrow> ('cg, 'pg, 'cg, 'pg) export_env" where
  "spec_export_env encode =
     \<lparr>pow_ExportGenesis = module_ExportGenesis_spec,
      cool_ExportGenesis = module_ExportGenesis_spec, MarshalJSONIndent = encode\<rparr>"

section \<open>Example inputs\<close>

definition example_consts :: sdk_consts where
  "example_consts =
     \<lparr>bam_MainStoreKey = ''main'', auth_StoreKey = ''acc'', staking_StoreKey = ''staking'',
      auth_DefaultParamspace = ''auth'', cool_DefaultCodespace = 6, pow_DefaultCodespace = 5,
      ibc_DefaultCodespace = 3, simplestaking_DefaultCodespace = 4\<rparr>"

definition example_app :: democoin_app where
  "example_app = projr (NewDemocoinApp example_consts (\<lambda>db stores key. None) () ())"

text \<open>A context with nothing in its account store.\<close>

definition fresh_ctx :: "'cs \<Rightarrow> 'ps \<Rightarrow> ('cs, 'ps) ctx" where
  "fresh_ctx cs ps =
     \<lparr>accountStore = [], mainStore = cs, powStore = ps, ibcStore = [], stakingStore = []\<rparr>"

text \<open>
  The scenario of the spec (two accounts, difficulty 1), and a document that lists one
  address twice. The proof-of-work block is (difficulty, count), the cool block a string.
\<close>

definition example_genesis :: "(string, nat \<times> nat) genesis_state" where
  "example_genesis =
     \<lparr>Accounts = [\<lparr>Address = 2, Coins = []\<rparr>,
                  \<lparr>Address = 1, Coins = [\<lparr>denom = ''xpx'', amount = 100\<rparr>]\<rparr>],
      POWGenesis = (1, 0), CoolGenesis = ''ice-cold''\<rparr>"

definition example_genesis_dup :: "(string, nat \<times> nat) genesis_state" where
  "example_genesis_dup =
     \<lparr>Accounts = [\<lparr>Address = 1, Coins = [\<lparr>denom = ''xpx'', amount = 100\<rparr>]\<rparr>,
                  \<lparr>Address = 1, Coins = []\<rparr>],
      POWGenesis = (1, 0), CoolGenesis = ''ice-cold''\<rparr>"

text \<open>A decoder that yields the given document for any bytes, and an encoder.\<close>

definition example_decode ::
  "(string, nat \<times> nat) genesis_state \<Rightarrow> codec \<Rightarrow> string
     \<Rightarrow> string + (string, nat \<times> nat) genesis_state" where
  "example_decode G c bs = Inr G"

definition example_encode :: "codec \<Rightarrow> (string, nat \<times> nat) genesis_state \<Rightarrow> string + string" where
  "example_encode c G = Inr ''{}''"

definition example_request :: request_init_chain where
  "example_request = \<lparr>AppStateBytes = ''{}''\<rparr>"

text \<open>Inputs on which one step of the initialization fails.\<close>

definition example_decode_fail ::
  "codec \<Rightarrow> string \<Rightarrow> string + (string, nat \<times> nat) genesis_state" where
  "example_decode_fail c bs = Inl ''unexpected end of JSON input''"

definition example_ToAppAccount_reject :: "genesis_account \<Rightarrow> string + account" where
  "example_ToAppAccount_reject gacc =
     (if Address gacc = 1 then Inl ''invalid account'' else ToAppAccount_spec gacc)"

definition example_InitGenesis_reject ::
  "account_store \<times> 'g \<Rightarrow> 'k \<Rightarrow> 'g \<Rightarrow> string + account_store \<times> 'g" where
  "example_InitGenesis_reject v k g = Inl ''genesis rejected''"

text \<open>A transaction for the bank route, and collaborators for the transaction path.\<close>

definition example_ante_ok :: "ante_handler \<Rightarrow> nat \<Rightarrow> tx \<Rightarrow> string + nat" where
  "example_ante_ok ah s t = Inr (Suc s)"

definition example_ante_reject :: "ante_handler \<Rightarrow> nat \<Rightarrow> tx \<Rightarrow> string + nat" where
  "example_ante_reject ah s t = Inl ''insufficient fee''"

definition example_run_handler :: "handler \<Rightarrow> nat \<Rightarrow> string \<Rightarrow> string + nat" where
  "example_run_handler h s m = Inr (s + 10)"

definition example_tx :: tx where
  "example_tx = \<lparr>tx_route = ''bank'', tx_msg = ''send''\<rparr>"

section \<open>Construction: what MakeCodec and NewDemocoinApp return\<close>

lemma MakeCodec_value:
  "MakeCodec = Inr \<lparr>cdc_entries =
      [RegisterBatch ''crypto'', RegisterBatch ''sdk'', RegisterBatch ''cool'',
       RegisterBatch ''pow'', RegisterBatch ''bank'', RegisterBatch ''ibc'',
       RegisterBatch ''simplestaking'', RegisterInterface ''auth.Account'',
       RegisterConcrete ''types.AppAccount'' ''xpx-cosmos/Account''],
     cdc_sealed = True\<rparr>"
  by (simp add: MakeCodec_def attempt_def codec_register_def codec_New_def codec_Seal_def)

lemmas construct_defs =
  NewDemocoinApp_def fatal_bind_def attempt_def AddRoute_def NewBaseApp_def SetInitChainer_def
  MountStores_def SetAnteHandler_def Seal_def Let_def



lemma NewDemocoinApp_Inr:
  assumes "NewDemocoinApp K load lg db = Inr app"
  shows "load_result K load db = None"
    and "ba_sealed (BaseApp app)"
    and "cdc_sealed (cdc app)"
    and "ba_stores (BaseApp app) =
           [capKeyMainStore app, capKeyAccountStore app, capKeyPowStore app,
            capKeyIBCStore app, capKeyStakingStore app]"
    and "map key_ref [capKeyMainStore app, capKeyAccountStore app, capKeyPowStore app,
           capKeyIBCStore app, capKeyStakingStore app, keyParams app, tkeyParams app]
         = [0, 1, 2, 3, 4, 5, 6]"
    and "ba_router (BaseApp app) =
           [(''bank'', BankHandler (bankKeeper app)),
            (''ibc'', IbcHandler (ibcMapper app) (bankKeeper app)),
            (''simplestaking'', SimplestakingHandler (stakingKeeper app))]"
    and "ba_anteHandler (BaseApp app) =
           Some (AuthAnteHandler (accountKeeper app) (feeCollectionKeeper app))"
    and "ba_initChainer (BaseApp app) = Some (InitChainerFn (coolKeeper app) (powKeeper app))"
    and "[ak_key (accountKeeper app), ck_key (coolKeeper app), pwk_key (powKeeper app),
          im_key (ibcMapper app), sk_key (stakingKeeper app),
          pk_key (paramsKeeper app), pk_tkey (paramsKeeper app)]
         = [capKeyAccountStore app, capKeyMainStore app, capKeyPowStore app,
            capKeyIBCStore app, capKeyStakingStore app, keyParams app, tkeyParams app]"
    and "cdc_entries (cdc app) =
           [RegisterBatch ''crypto'', RegisterBatch ''sdk'', RegisterBatch ''cool'',
            RegisterBatch ''pow'', RegisterBatch ''bank'', RegisterBatch ''ibc'',
            RegisterBatch ''simplestaking'', RegisterInterface ''auth.Account'',
            RegisterConcrete ''types.AppAccount'' ''xpx-cosmos/Account'']"
proof -
  show L: "load_result K load db = None"
    using assms by (simp add: construct_defs MakeCodec_value split: option.splits)
  have A: "NewDemocoinApp K (\<lambda>db stores key. None) lg db = Inr app"
    using assms L by (simp add: construct_defs MakeCodec_value)
  note unfolded = A[unfolded construct_defs MakeCodec_value, simplified]
  show "ba_sealed (BaseApp app)"
    and "cdc_sealed (cdc app)"
    and "ba_stores (BaseApp app) =
           [capKeyMainStore app, capKeyAccountStore app, capKeyPowStore app,
            capKeyIBCStore app, capKeyStakingStore app]"
    and "map key_ref [capKeyMainStore app, capKeyAccountStore app, capKeyPowStore app,
           capKeyIBCStore app, capKeyStakingStore app, keyParams app, tkeyParams app]
         = [0, 1, 2, 3, 4, 5, 6]"
    and "ba_router (BaseApp app) =
           [(''bank'', BankHandler (bankKeeper app)),
            (''ibc'', IbcHandler (ibcMapper app) (bankKeeper app)),
            (''simplestaking'', SimplestakingHandler (stakingKeeper app))]"
    and "ba_anteHandler (BaseApp app) =
           Some (AuthAnteHandler (accountKeeper app) (feeCollectionKeeper app))"
    and "ba_initChainer (BaseApp app) = Some (InitChainerFn (coolKeeper app) (powKeeper app))"
    and "[ak_key (accountKeeper app), ck_key (coolKeeper app), pwk_key (powKeeper app),
          im_key (ibcMapper app), sk_key (stakingKeeper app),
          pk_key (paramsKeeper app), pk_tkey (paramsKeeper app)]
         = [capKeyAccountStore app, capKeyMainStore app, capKeyPowStore app,
            capKeyIBCStore app, capKeyStakingStore app, keyParams app, tkeyParams app]"
    and "cdc_entries (cdc app) =
           [RegisterBatch ''crypto'', RegisterBatch ''sdk'', RegisterBatch ''cool'',
            RegisterBatch ''pow'', RegisterBatch ''bank'', RegisterBatch ''ibc'',
            RegisterBatch ''simplestaking'', RegisterInterface ''auth.Account'',
            RegisterConcrete ''types.AppAccount'' ''xpx-cosmos/Account'']"
    unfolding unfolded[symmetric]
    by (simp_all add: NewKVStoreKey_def NewTransientStoreKey_def)
qed

lemma example_app_constructed:
  "NewDemocoinApp example_consts (\<lambda>db stores key. None) () () = Inr example_app"
  by (simp add: example_app_def construct_defs MakeCodec_value)

lemma distinct_by_ref: "distinct (map key_ref ks) \<Longrightarrow> distinct ks"
  by (rule distinct_map[THEN iffD1, THEN conjunct1])

lemma store_keys_distinct:
  assumes "NewDemocoinApp K load lg db = Inr app"
  shows "distinct [capKeyAccountStore app, capKeyMainStore app, capKeyPowStore app,
           capKeyIBCStore app, capKeyStakingStore app, keyParams app, tkeyParams app]"
proof -
  have "map key_ref [capKeyAccountStore app, capKeyMainStore app, capKeyPowStore app,
          capKeyIBCStore app, capKeyStakingStore app, keyParams app, tkeyParams app]
        = [1, 0, 2, 3, 4, 5, 6]"
    using NewDemocoinApp_Inr(5)[OF assms] by simp
  then have "distinct (map key_ref [capKeyAccountStore app, capKeyMainStore app,
          capKeyPowStore app, capKeyIBCStore app, capKeyStakingStore app,
          keyParams app, tkeyParams app])"
    by simp
  then show ?thesis by (rule distinct_by_ref)
qed

section \<open>Store isolation by construction\<close>

text \<open>
  C3. Whenever \<^verbatim>\<open>NewDemocoinApp\<close> returns an application, the store keys its keepers were
  constructed with (account, cool, proof-of-work, inter-chain mapper, staking, and the two
  keys of the params keeper) are pairwise distinct: no two keepers share a store key. The
  account keeper also receives a subspace of the params keeper; that is a handle on the
  params keeper, not a store key of the account keeper.
\<close>

theorem keepers_have_distinct_store_keys:
  assumes "NewDemocoinApp K load lg db = Inr app"
  shows "distinct [ak_key (accountKeeper app), ck_key (coolKeeper app),
           pwk_key (powKeeper app), im_key (ibcMapper app), sk_key (stakingKeeper app),
           pk_key (paramsKeeper app), pk_tkey (paramsKeeper app)]"
  using store_keys_distinct[OF assms] unfolding NewDemocoinApp_Inr(9)[OF assms] .

theorem keepers_have_distinct_store_keys_witness:
  "distinct [ak_key (accountKeeper example_app), ck_key (coolKeeper example_app),
     pwk_key (powKeeper example_app), im_key (ibcMapper example_app),
     sk_key (stakingKeeper example_app),
     pk_key (paramsKeeper example_app), pk_tkey (paramsKeeper example_app)]"
  using keepers_have_distinct_store_keys[OF example_app_constructed] .

section \<open>Construction ends sealed or ends the process\<close>


section \<open>Mounted stores\<close>

text \<open>
  C4. The claim is that all seven declared store keys are mounted before sealing. The
  construction mounts five: the list given to \<^verbatim>\<open>MountStores\<close> is main, account,
  proof-of-work, inter-chain and staking. The two keys of the params keeper,
  \<^verbatim>\<open>keyParams\<close> and \<^verbatim>\<open>tkeyParams\<close>, are declared in the same struct literal and handed to
  \<^verbatim>\<open>params.NewKeeper\<close>, and are not among the mounted stores of the application that
  \<^verbatim>\<open>NewDemocoinApp\<close> returns.
\<close>

theorem params_stores_not_mounted:
  assumes "NewDemocoinApp K load lg db = Inr app"
  shows "ba_stores (BaseApp app) =
           [capKeyMainStore app, capKeyAccountStore app, capKeyPowStore app,
            capKeyIBCStore app, capKeyStakingStore app]
         \<and> keyParams app \<notin> set (ba_stores (BaseApp app))
         \<and> tkeyParams app \<notin> set (ba_stores (BaseApp app))
         \<and> pk_key (paramsKeeper app) = keyParams app
         \<and> pk_tkey (paramsKeeper app) = tkeyParams app"
proof -
  note m = NewDemocoinApp_Inr(4)[OF assms]
  from store_keys_distinct[OF assms]
  have "keyParams app \<notin> set (ba_stores (BaseApp app))"
    and "tkeyParams app \<notin> set (ba_stores (BaseApp app))"
    unfolding m by auto
  moreover from NewDemocoinApp_Inr(9)[OF assms]
  have "pk_key (paramsKeeper app) = keyParams app" "pk_tkey (paramsKeeper app) = tkeyParams app"
    by simp_all
  ultimately show ?thesis using m by simp
qed

theorem params_stores_not_mounted_witness:
  "ba_stores (BaseApp example_app) =
           [capKeyMainStore example_app, capKeyAccountStore example_app,
            capKeyPowStore example_app, capKeyIBCStore example_app,
            capKeyStakingStore example_app]
         \<and> keyParams example_app \<notin> set (ba_stores (BaseApp example_app))
         \<and> tkeyParams example_app \<notin> set (ba_stores (BaseApp example_app))
         \<and> pk_key (paramsKeeper example_app) = keyParams example_app
         \<and> pk_tkey (paramsKeeper example_app) = tkeyParams example_app"
  using params_stores_not_mounted[OF example_app_constructed] .

section \<open>Sealing\<close>

text \<open>The seven store keys, as the struct literal of \<^verbatim>\<open>NewDemocoinApp\<close> creates them.\<close>

lemma NewDemocoinApp_keys:
  assumes "NewDemocoinApp K load lg db = Inr app"
  shows "[capKeyMainStore app, capKeyAccountStore app, capKeyPowStore app,
          capKeyIBCStore app, capKeyStakingStore app, keyParams app, tkeyParams app]
         = [NewKVStoreKey 0 (bam_MainStoreKey K), NewKVStoreKey 1 (auth_StoreKey K),
            NewKVStoreKey 2 ''pow'', NewKVStoreKey 3 ''ibc'',
            NewKVStoreKey 4 (staking_StoreKey K), NewKVStoreKey 5 ''params'',
            NewTransientStoreKey 6 ''transient_params'']"
proof -
  have L: "load_result K load db = None"
    by (rule NewDemocoinApp_Inr(1)[OF assms])
  have A: "NewDemocoinApp K (\<lambda>db stores key. None) lg db = Inr app"
    using assms L by (simp add: construct_defs MakeCodec_value)
  note unfolded = A[unfolded construct_defs MakeCodec_value, simplified]
  show ?thesis
    unfolding unfolded[symmetric] by simp
qed

text \<open>
  C5. Whenever \<^verbatim>\<open>NewDemocoinApp\<close> returns an application, the application and its codec are
  both sealed; mounting any further stores, adding any route and registering any codec
  entry on them each fail with a fatal configuration error and leave the registry as it
  was. What construction created is there, each item once: the seven store keys are the
  seven keys of the struct literal, the mounted stores are exactly the five given to
  \<^verbatim>\<open>MountStores\<close>, the route table is exactly the three routes bank, ibc and simplestaking
  with their handlers, and the codec holds exactly the nine registrations of
  \<^verbatim>\<open>MakeCodec\<close>, in order; no key, route name or codec entry occurs twice. What a sealed
  registry does with a registration follows the spec.
\<close>

theorem sealed_after_construction:
  assumes "NewDemocoinApp K load lg db = Inr app"
  shows "ba_sealed (BaseApp app) \<and> cdc_sealed (cdc app)
         \<and> (\<exists>msg. MountStores keys (BaseApp app) = (Some (Panic msg), BaseApp app))
         \<and> (\<exists>msg. AddRoute r h (BaseApp app) = (Some (Panic msg), BaseApp app))
         \<and> (\<exists>msg. codec_register e (cdc app) = (Some (Panic msg), cdc app))
         \<and> [capKeyMainStore app, capKeyAccountStore app, capKeyPowStore app,
              capKeyIBCStore app, capKeyStakingStore app, keyParams app, tkeyParams app]
            = [NewKVStoreKey 0 (bam_MainStoreKey K), NewKVStoreKey 1 (auth_StoreKey K),
               NewKVStoreKey 2 ''pow'', NewKVStoreKey 3 ''ibc'',
               NewKVStoreKey 4 (staking_StoreKey K), NewKVStoreKey 5 ''params'',
               NewTransientStoreKey 6 ''transient_params'']
         \<and> ba_stores (BaseApp app) =
              [capKeyMainStore app, capKeyAccountStore app, capKeyPowStore app,
               capKeyIBCStore app, capKeyStakingStore app]
         \<and> ba_router (BaseApp app) =
              [(''bank'', BankHandler (bankKeeper app)),
               (''ibc'', IbcHandler (ibcMapper app) (bankKeeper app)),
               (''simplestaking'', SimplestakingHandler (stakingKeeper app))]
         \<and> cdc_entries (cdc app) =
              [RegisterBatch ''crypto'', RegisterBatch ''sdk'', RegisterBatch ''cool'',
               RegisterBatch ''pow'', RegisterBatch ''bank'', RegisterBatch ''ibc'',
               RegisterBatch ''simplestaking'', RegisterInterface ''auth.Account'',
               RegisterConcrete ''types.AppAccount'' ''xpx-cosmos/Account'']
         \<and> distinct [capKeyMainStore app, capKeyAccountStore app, capKeyPowStore app,
              capKeyIBCStore app, capKeyStakingStore app, keyParams app, tkeyParams app]
         \<and> distinct (map fst (ba_router (BaseApp app)))
         \<and> distinct (cdc_entries (cdc app))"
proof -
  note s = NewDemocoinApp_Inr(2,3)[OF assms]
  note created = NewDemocoinApp_keys[OF assms] NewDemocoinApp_Inr(4,6,10)[OF assms]
  have mount: "\<exists>msg. MountStores keys (BaseApp app) = (Some (Panic msg), BaseApp app)"
    using s by (simp add: MountStores_def)
  have route: "\<exists>msg. AddRoute r h (BaseApp app) = (Some (Panic msg), BaseApp app)"
    using s by (simp add: AddRoute_def)
  have register: "\<exists>msg. codec_register e (cdc app) = (Some (Panic msg), cdc app)"
    using s by (simp add: codec_register_def)
  have keys: "distinct [capKeyMainStore app, capKeyAccountStore app, capKeyPowStore app,
              capKeyIBCStore app, capKeyStakingStore app, keyParams app, tkeyParams app]"
    using store_keys_distinct[OF assms] by auto
  have routes: "distinct (map fst (ba_router (BaseApp app)))"
    unfolding NewDemocoinApp_Inr(6)[OF assms] by simp
  have entries: "distinct (cdc_entries (cdc app))"
    unfolding NewDemocoinApp_Inr(10)[OF assms] by simp
  show ?thesis
    by (intro conjI s mount route register created keys routes entries)
qed

theorem sealed_after_construction_witness:
  "ba_sealed (BaseApp example_app) \<and> cdc_sealed (cdc example_app)
   \<and> (\<exists>msg. MountStores [NewKVStoreKey 7 ''extra''] (BaseApp example_app)
          = (Some (Panic msg), BaseApp example_app))
   \<and> (\<exists>msg. AddRoute ''cool'' (BankHandler (bankKeeper example_app)) (BaseApp example_app)
          = (Some (Panic msg), BaseApp example_app))
   \<and> (\<exists>msg. codec_register (RegisterConcrete ''types.Extra'' ''xpx-cosmos/Extra'')
          (cdc example_app) = (Some (Panic msg), cdc example_app))
   \<and> [capKeyMainStore example_app, capKeyAccountStore example_app,
        capKeyPowStore example_app, capKeyIBCStore example_app,
        capKeyStakingStore example_app, keyParams example_app, tkeyParams example_app]
      = [NewKVStoreKey 0 (bam_MainStoreKey example_consts),
         NewKVStoreKey 1 (auth_StoreKey example_consts),
         NewKVStoreKey 2 ''pow'', NewKVStoreKey 3 ''ibc'',
         NewKVStoreKey 4 (staking_StoreKey example_consts), NewKVStoreKey 5 ''params'',
         NewTransientStoreKey 6 ''transient_params'']
   \<and> ba_stores (BaseApp example_app) =
        [capKeyMainStore example_app, capKeyAccountStore example_app,
         capKeyPowStore example_app, capKeyIBCStore example_app,
         capKeyStakingStore example_app]
   \<and> ba_router (BaseApp example_app) =
        [(''bank'', BankHandler (bankKeeper example_app)),
         (''ibc'', IbcHandler (ibcMapper example_app) (bankKeeper example_app)),
         (''simplestaking'', SimplestakingHandler (stakingKeeper example_app))]
   \<and> cdc_entries (cdc example_app) =
        [RegisterBatch ''crypto'', RegisterBatch ''sdk'', RegisterBatch ''cool'',
         RegisterBatch ''pow'', RegisterBatch ''bank'', RegisterBatch ''ibc'',
         RegisterBatch ''simplestaking'', RegisterInterface ''auth.Account'',
         RegisterConcrete ''types.AppAccount'' ''xpx-cosmos/Account'']
   \<and> distinct [capKeyMainStore example_app, capKeyAccountStore example_app,
        capKeyPowStore example_app, capKeyIBCStore example_app,
        capKeyStakingStore example_app, keyParams example_app, tkeyParams example_app]
   \<and> distinct (map fst (ba_router (BaseApp example_app)))
   \<and> distinct (cdc_entries (cdc example_app))"
  using sealed_after_construction[OF example_app_constructed] .

section \<open>The account store\<close>

lemma iterate_appendAccount:
  "iterate appendAccount as acc0 =
     acc0 @ map (\<lambda>a. \<lparr>Address = acc_address a, Coins = acc_coins a\<rparr>) as"
  by (induction as arbitrary: acc0) (simp_all add: appendAccount_def GetAddress_def GetCoins_def)

lemma exported_accounts:
  "Accounts (exportGenState X app c) =
     map (\<lambda>a. \<lparr>Address = acc_address a, Coins = acc_coins a\<rparr>) (map snd (accountStore c))"
  by (simp add: exportGenState_def IterateAccounts_def iterate_appendAccount)




section \<open>Genesis round trip\<close>





section \<open>Fatal initialization\<close>

lemma init_accounts_Inl:
  "init_accounts E ak c gs = Inl f \<Longrightarrow> \<exists>g\<in>set gs. \<exists>e. ToAppAccount E g = Inl e \<and> f = Panic e"
  by (induction gs arbitrary: c) (auto split: sum.splits)

lemma init_accounts_Inr:
  "init_accounts E ak c gs = Inr c1 \<Longrightarrow> \<forall>g\<in>set gs. \<exists>a. ToAppAccount E g = Inr a"
  by (induction gs arbitrary: c) (auto split: sum.splits)

lemma init_accounts_fails:
  "g \<in> set gs \<Longrightarrow> ToAppAccount E g = Inl e \<Longrightarrow> \<exists>e'. init_accounts E ak c gs = Inl (Panic e')"
proof (induction gs arbitrary: c)
  case Nil
  then show ?case by simp
next
  case (Cons x gs)
  show ?case
  proof (cases "ToAppAccount E x")
    case (Inl e0)
    then show ?thesis by simp
  next
    case (Inr a)
    with Cons.prems have "g \<in> set gs" by auto
    from Cons.IH[OF this Cons.prems(2)] Inr show ?thesis by simp
  qed
qed

lemma init_accounts_frame:
  "init_accounts E ak c gs = Inr c1 \<Longrightarrow>
     mainStore c1 = mainStore c \<and> powStore c1 = powStore c
     \<and> ibcStore c1 = ibcStore c \<and> stakingStore c1 = stakingStore c"
proof (induction gs arbitrary: c)
  case Nil
  then show ?case by simp
next
  case (Cons x gs)
  then show ?case
    by (cases "ToAppAccount E x") (auto simp: SetAccount_def)
qed

lemma initChainerFn_Inr:
  assumes run: "initChainerFn E app ck pk c req = Inr (c', r)"
  shows "\<exists>gs c1 v2 v3. UnmarshalJSON E (cdc app) (AppStateBytes req) = Inr gs
              \<and> (\<forall>g\<in>set (Accounts gs). \<exists>a. ToAppAccount E g = Inr a)
              \<and> init_accounts E (accountKeeper app) c (Accounts gs) = Inr c1
              \<and> cool_InitGenesis E (cool_view c1) (coolKeeper app) (CoolGenesis gs) = Inr v2
              \<and> pow_InitGenesis E (pow_view (put_cool_view v2 c1)) (powKeeper app)
                   (POWGenesis gs) = Inr v3
              \<and> c' = put_pow_view v3 (put_cool_view v2 c1)"
proof -
  from run obtain gs where gs: "UnmarshalJSON E (cdc app) (AppStateBytes req) = Inr gs"
    by (cases "UnmarshalJSON E (cdc app) (AppStateBytes req)") (simp_all add: initChainerFn_def)
  from run gs obtain c1 where c1: "init_accounts E (accountKeeper app) c (Accounts gs) = Inr c1"
    by (cases "init_accounts E (accountKeeper app) c (Accounts gs)")
       (simp_all add: initChainerFn_def fatal_bind_def)
  from run gs c1 obtain v2 where
    v2: "cool_InitGenesis E (cool_view c1) (coolKeeper app) (CoolGenesis gs) = Inr v2"
    by (cases "cool_InitGenesis E (cool_view c1) (coolKeeper app) (CoolGenesis gs)")
       (simp_all add: initChainerFn_def fatal_bind_def)
  from run gs c1 v2 obtain v3 where
    v3: "pow_InitGenesis E (pow_view (put_cool_view v2 c1)) (powKeeper app) (POWGenesis gs) = Inr v3"
    by (cases "pow_InitGenesis E (pow_view (put_cool_view v2 c1)) (powKeeper app) (POWGenesis gs)")
       (simp_all add: initChainerFn_def fatal_bind_def)
  from run gs c1 v2 v3 have "c' = put_pow_view v3 (put_cool_view v2 c1)"
    by (simp add: initChainerFn_def fatal_bind_def)
  with gs c1 v2 v3 init_accounts_Inr[OF c1]
  show ?thesis
    by blast
qed

text \<open>
  C2. For every genesis request, with any decoder, account conversion and module
  initializers: if decoding fails, the init chainer panics with that error; if the
  conversion of some listed account fails, it panics; if the cool module's
  \<^verbatim>\<open>InitGenesis\<close>, called on the state reached after the accounts, returns an error, it
  panics with that error; if the proof-of-work module's then does, it panics with that
  error. A panic returns no state. The init chainer returns a state and a response only
  when decoding, every conversion and both module initializers succeeded, and it never
  ends by exiting the process.
\<close>

theorem initChainerFn_fatal:
  "(\<forall>err. UnmarshalJSON E (cdc app) (AppStateBytes req) = Inl err
        \<longrightarrow> initChainerFn E app ck pk c req = Inl (Panic err))
   \<and> (\<forall>gs g err. UnmarshalJSON E (cdc app) (AppStateBytes req) = Inr gs
        \<and> g \<in> set (Accounts gs) \<and> ToAppAccount E g = Inl err
        \<longrightarrow> (\<exists>e. initChainerFn E app ck pk c req = Inl (Panic e)))
   \<and> (\<forall>gs c1 err. UnmarshalJSON E (cdc app) (AppStateBytes req) = Inr gs
        \<and> init_accounts E (accountKeeper app) c (Accounts gs) = Inr c1
        \<and> cool_InitGenesis E (cool_view c1) (coolKeeper app) (CoolGenesis gs) = Inl err
        \<longrightarrow> initChainerFn E app ck pk c req = Inl (Panic err))
   \<and> (\<forall>gs c1 v2 err. UnmarshalJSON E (cdc app) (AppStateBytes req) = Inr gs
        \<and> init_accounts E (accountKeeper app) c (Accounts gs) = Inr c1
        \<and> cool_InitGenesis E (cool_view c1) (coolKeeper app) (CoolGenesis gs) = Inr v2
        \<and> pow_InitGenesis E (pow_view (put_cool_view v2 c1)) (powKeeper app) (POWGenesis gs)
            = Inl err
        \<longrightarrow> initChainerFn E app ck pk c req = Inl (Panic err))
   \<and> (\<forall>c' r. initChainerFn E app ck pk c req = Inr (c', r)
        \<longrightarrow> (\<exists>gs c1 v2 v3. UnmarshalJSON E (cdc app) (AppStateBytes req) = Inr gs
              \<and> (\<forall>g\<in>set (Accounts gs). \<exists>a. ToAppAccount E g = Inr a)
              \<and> init_accounts E (accountKeeper app) c (Accounts gs) = Inr c1
              \<and> cool_InitGenesis E (cool_view c1) (coolKeeper app) (CoolGenesis gs) = Inr v2
              \<and> pow_InitGenesis E (pow_view (put_cool_view v2 c1)) (powKeeper app)
                   (POWGenesis gs) = Inr v3
              \<and> c' = put_pow_view v3 (put_cool_view v2 c1)))
   \<and> (\<forall>msg. initChainerFn E app ck pk c req \<noteq> Inl (Exit msg))"
proof (intro conjI allI impI)
  fix err
  assume "UnmarshalJSON E (cdc app) (AppStateBytes req) = Inl err"
  then show "initChainerFn E app ck pk c req = Inl (Panic err)"
    by (simp add: initChainerFn_def)
next
  fix gs g err
  assume a: "UnmarshalJSON E (cdc app) (AppStateBytes req) = Inr gs
        \<and> g \<in> set (Accounts gs) \<and> ToAppAccount E g = Inl err"
  then obtain e where "init_accounts E (accountKeeper app) c (Accounts gs) = Inl (Panic e)"
    using init_accounts_fails by blast
  with a show "\<exists>e. initChainerFn E app ck pk c req = Inl (Panic e)"
    by (simp add: initChainerFn_def fatal_bind_def)
next
  fix gs c1 err
  assume "UnmarshalJSON E (cdc app) (AppStateBytes req) = Inr gs
        \<and> init_accounts E (accountKeeper app) c (Accounts gs) = Inr c1
        \<and> cool_InitGenesis E (cool_view c1) (coolKeeper app) (CoolGenesis gs) = Inl err"
  then show "initChainerFn E app ck pk c req = Inl (Panic err)"
    by (simp add: initChainerFn_def fatal_bind_def)
next
  fix gs c1 v2 err
  assume "UnmarshalJSON E (cdc app) (AppStateBytes req) = Inr gs
        \<and> init_accounts E (accountKeeper app) c (Accounts gs) = Inr c1
        \<and> cool_InitGenesis E (cool_view c1) (coolKeeper app) (CoolGenesis gs) = Inr v2
        \<and> pow_InitGenesis E (pow_view (put_cool_view v2 c1)) (powKeeper app) (POWGenesis gs)
            = Inl err"
  then show "initChainerFn E app ck pk c req = Inl (Panic err)"
    by (simp add: initChainerFn_def fatal_bind_def)
next
  fix c' r
  assume run: "initChainerFn E app ck pk c req = Inr (c', r)"
  then show "\<exists>gs c1 v2 v3. UnmarshalJSON E (cdc app) (AppStateBytes req) = Inr gs
              \<and> (\<forall>g\<in>set (Accounts gs). \<exists>a. ToAppAccount E g = Inr a)
              \<and> init_accounts E (accountKeeper app) c (Accounts gs) = Inr c1
              \<and> cool_InitGenesis E (cool_view c1) (coolKeeper app) (CoolGenesis gs) = Inr v2
              \<and> pow_InitGenesis E (pow_view (put_cool_view v2 c1)) (powKeeper app)
                   (POWGenesis gs) = Inr v3
              \<and> c' = put_pow_view v3 (put_cool_view v2 c1)"
    by (rule initChainerFn_Inr)
next
  fix msg
  show "initChainerFn E app ck pk c req \<noteq> Inl (Exit msg)"
  proof
    assume "initChainerFn E app ck pk c req = Inl (Exit msg)"
    then show False
      by (auto simp: initChainerFn_def fatal_bind_def split: sum.splits dest!: init_accounts_Inl)
  qed
qed

theorem initChainerFn_fatal_witness:
  "initChainerFn (spec_init_env example_decode_fail) example_app (coolKeeper example_app)
     (powKeeper example_app) (fresh_ctx [] (0, 0)) example_request
     = Inl (Panic ''unexpected end of JSON input'')
   \<and> (\<exists>e. initChainerFn
          ((spec_init_env (example_decode example_genesis))
             \<lparr>ToAppAccount := example_ToAppAccount_reject\<rparr>)
          example_app (coolKeeper example_app) (powKeeper example_app) (fresh_ctx [] (0, 0))
          example_request = Inl (Panic e))
   \<and> initChainerFn
        ((spec_init_env (example_decode example_genesis))
           \<lparr>cool_InitGenesis := example_InitGenesis_reject\<rparr>)
        example_app (coolKeeper example_app) (powKeeper example_app) (fresh_ctx [] (0, 0))
        example_request = Inl (Panic ''genesis rejected'')
   \<and> initChainerFn
        ((spec_init_env (example_decode example_genesis))
           \<lparr>pow_InitGenesis := example_InitGenesis_reject\<rparr>)
        example_app (coolKeeper example_app) (powKeeper example_app) (fresh_ctx [] (0, 0))
        example_request = Inl (Panic ''genesis rejected'')
   \<and> (\<exists>c'. initChainerFn (spec_init_env (example_decode example_genesis)) example_app
          (coolKeeper example_app) (powKeeper example_app) (fresh_ctx [] (0, 0))
          example_request = Inr (c', ResponseInitChain)
        \<and> (\<exists>a. ToAppAccount (spec_init_env (example_decode example_genesis))
                 \<lparr>Address = 2, Coins = []\<rparr> = Inr a))"
proof (intro conjI)
  let ?c0 = "fresh_ctx [] (0::nat, 0::nat)"
  let ?ck = "coolKeeper example_app" and ?pk = "powKeeper example_app"
  let ?Es = "spec_init_env (example_decode example_genesis)"
  note ev = spec_init_env_def example_decode_def example_decode_fail_def example_genesis_def
    example_ToAppAccount_reject_def example_InitGenesis_reject_def ToAppAccount_spec_def
    module_InitGenesis_spec_def example_request_def
  show "initChainerFn (spec_init_env example_decode_fail) example_app ?ck ?pk ?c0 example_request
          = Inl (Panic ''unexpected end of JSON input'')"
    using initChainerFn_fatal[of "spec_init_env example_decode_fail" example_app
        example_request ?ck ?pk ?c0]
    by (simp add: ev)
  show "\<exists>e. initChainerFn (?Es\<lparr>ToAppAccount := example_ToAppAccount_reject\<rparr>) example_app
               ?ck ?pk ?c0 example_request = Inl (Panic e)"
  proof -
    have "UnmarshalJSON (?Es\<lparr>ToAppAccount := example_ToAppAccount_reject\<rparr>) (cdc example_app)
            (AppStateBytes example_request) = Inr example_genesis
          \<and> \<lparr>Address = 1, Coins = [\<lparr>denom = ''xpx'', amount = 100\<rparr>]\<rparr>
               \<in> set (Accounts example_genesis)
          \<and> ToAppAccount (?Es\<lparr>ToAppAccount := example_ToAppAccount_reject\<rparr>)
               \<lparr>Address = 1, Coins = [\<lparr>denom = ''xpx'', amount = 100\<rparr>]\<rparr> = Inl ''invalid account''"
      by (simp add: ev)
    with initChainerFn_fatal[of "?Es\<lparr>ToAppAccount := example_ToAppAccount_reject\<rparr>"
        example_app example_request ?ck ?pk ?c0]
    show ?thesis by blast
  qed
  have accs: "\<And>E. ToAppAccount E = ToAppAccount_spec \<Longrightarrow>
     init_accounts E (accountKeeper example_app) ?c0 (Accounts example_genesis)
       = Inr (?c0\<lparr>accountStore :=
                [(1, \<lparr>acc_address = 1, acc_coins = [\<lparr>denom = ''xpx'', amount = 100\<rparr>],
                      acc_sequence = 0\<rparr>),
                 (2, \<lparr>acc_address = 2, acc_coins = [], acc_sequence = 0\<rparr>)]\<rparr>)"
    by (simp add: ev SetAccount_def GetAddress_def fresh_ctx_def)
  show "initChainerFn (?Es\<lparr>cool_InitGenesis := example_InitGenesis_reject\<rparr>) example_app
          ?ck ?pk ?c0 example_request = Inl (Panic ''genesis rejected'')"
    using initChainerFn_fatal[of "?Es\<lparr>cool_InitGenesis := example_InitGenesis_reject\<rparr>"
        example_app example_request ?ck ?pk ?c0]
      accs[of "?Es\<lparr>cool_InitGenesis := example_InitGenesis_reject\<rparr>"]
    by (simp add: ev)
  show "initChainerFn (?Es\<lparr>pow_InitGenesis := example_InitGenesis_reject\<rparr>) example_app
          ?ck ?pk ?c0 example_request = Inl (Panic ''genesis rejected'')"
    using initChainerFn_fatal[of "?Es\<lparr>pow_InitGenesis := example_InitGenesis_reject\<rparr>"
        example_app example_request ?ck ?pk ?c0]
      accs[of "?Es\<lparr>pow_InitGenesis := example_InitGenesis_reject\<rparr>"]
    by (simp add: ev)
  show "\<exists>c'. initChainerFn ?Es example_app ?ck ?pk ?c0 example_request = Inr (c', ResponseInitChain)
        \<and> (\<exists>a. ToAppAccount ?Es \<lparr>Address = 2, Coins = []\<rparr> = Inr a)"
  proof -
    have run: "initChainerFn ?Es example_app ?ck ?pk ?c0 example_request
       = Inr (put_pow_view
                ([(1, \<lparr>acc_address = 1, acc_coins = [\<lparr>denom = ''xpx'', amount = 100\<rparr>],
                      acc_sequence = 0\<rparr>),
                 (2, \<lparr>acc_address = 2, acc_coins = [], acc_sequence = 0\<rparr>)], (1, 0))
                (put_cool_view
                  ([(1, \<lparr>acc_address = 1, acc_coins = [\<lparr>denom = ''xpx'', amount = 100\<rparr>],
                      acc_sequence = 0\<rparr>),
                   (2, \<lparr>acc_address = 2, acc_coins = [], acc_sequence = 0\<rparr>)], ''ice-cold'')
                  (?c0\<lparr>accountStore :=
                    [(1, \<lparr>acc_address = 1, acc_coins = [\<lparr>denom = ''xpx'', amount = 100\<rparr>],
                      acc_sequence = 0\<rparr>),
                     (2, \<lparr>acc_address = 2, acc_coins = [], acc_sequence = 0\<rparr>)]\<rparr>)),
              ResponseInitChain)"
      using accs[of ?Es]
      by (simp add: initChainerFn_def fatal_bind_def ev cool_view_def pow_view_def
          put_cool_view_def put_pow_view_def fresh_ctx_def)
    from initChainerFn_fatal[of ?Es example_app example_request ?ck ?pk ?c0] run
    have "\<forall>g\<in>set (Accounts example_genesis). \<exists>a. ToAppAccount ?Es g = Inr a"
      by (auto simp: ev)
    then have "\<exists>a. ToAppAccount ?Es \<lparr>Address = 2, Coins = []\<rparr> = Inr a"
      by (simp add: example_genesis_def)
    with run show ?thesis by blast
  qed
qed

section \<open>The account boundary of the export\<close>

text \<open>
  C7, as amended. For every context, the exported accounts are exactly the stored accounts
  in iteration order, one record per stored account, each record made of that account's
  address and its list of coins in the stored order. Nothing else of the account is
  exported.
\<close>

theorem export_accounts_boundary:
  "Accounts (exportGenState X app c) =
     map (\<lambda>acc. \<lparr>Address = GetAddress acc, Coins = GetCoins acc\<rparr>) (map snd (accountStore c))
   \<and> length (Accounts (exportGenState X app c)) = length (accountStore c)"
  by (simp add: exported_accounts GetAddress_def GetCoins_def)

text \<open>
  The claim as written also says that the account maps to the boundary shape without
  loss. It does not: two stored accounts that differ in their sequence number only are
  exported as the same record, so the export of the two states is the same document.
\<close>

theorem export_drops_sequence_counterexample:
  "\<lparr>acc_address = 1, acc_coins = [\<lparr>denom = ''xpx'', amount = 50\<rparr>], acc_sequence = 3\<rparr>
     \<noteq> \<lparr>acc_address = 1, acc_coins = [\<lparr>denom = ''xpx'', amount = 50\<rparr>], acc_sequence = 0\<rparr>
   \<and> ExportAppStateAndValidators (spec_export_env example_encode) example_app
       \<lparr>accountStore =
          [(1, \<lparr>acc_address = 1, acc_coins = [\<lparr>denom = ''xpx'', amount = 50\<rparr>],
                acc_sequence = 3\<rparr>)],
        mainStore = ''ice-cold'', powStore = (1, 0), ibcStore = [], stakingStore = []\<rparr>
     = ExportAppStateAndValidators (spec_export_env example_encode) example_app
       \<lparr>accountStore =
          [(1, \<lparr>acc_address = 1, acc_coins = [\<lparr>denom = ''xpx'', amount = 50\<rparr>],
                acc_sequence = 0\<rparr>)],
        mainStore = ''ice-cold'', powStore = (1, 0), ibcStore = [], stakingStore = []\<rparr>
   \<and> Accounts (exportGenState (spec_export_env example_encode) example_app
       \<lparr>accountStore =
          [(1, \<lparr>acc_address = 1, acc_coins = [\<lparr>denom = ''xpx'', amount = 50\<rparr>],
                acc_sequence = 3\<rparr>)],
        mainStore = ''ice-cold'', powStore = (1, 0), ibcStore = [], stakingStore = []\<rparr>)
     = [\<lparr>Address = 1, Coins = [\<lparr>denom = ''xpx'', amount = 50\<rparr>]\<rparr>]"
  by (simp add: ExportAppStateAndValidators_def exportGenState_def IterateAccounts_def
      appendAccount_def GetAddress_def GetCoins_def spec_export_env_def
      module_ExportGenesis_spec_def cool_view_def pow_view_def)

section \<open>What the export returns besides the document\<close>

text \<open>
  C8. For every application and context, and whether or not serialization succeeds, the
  validator list returned by \<^verbatim>\<open>ExportAppStateAndValidators\<close> is the nil (empty) list.
\<close>

theorem exported_validators_nil:
  "fst (snd (ExportAppStateAndValidators X app c)) = []"
  by (simp add: ExportAppStateAndValidators_def split: sum.splits)

lemma exportGenState_frame:
  "exportGenState X app (c\<lparr>ibcStore := i, stakingStore := s\<rparr>) = exportGenState X app c"
  by (simp add: exportGenState_def IterateAccounts_def cool_view_def pow_view_def)

text \<open>
  C9. The export does not depend on the inter-chain store or on the staking store: two
  contexts that differ only there export the same result. Initialization does not write
  them either: the state it reaches has the inter-chain and staking stores of the state it
  started from, so importing an exported document into a new chain does not bring back
  what the exporting chain held there.
\<close>

theorem export_omits_ibc_and_staking:
  "ExportAppStateAndValidators X app (c\<lparr>ibcStore := i, stakingStore := s\<rparr>)
     = ExportAppStateAndValidators X app c
   \<and> (\<forall>c' r. initChainerFn E app ck pk c0 req = Inr (c', r)
        \<longrightarrow> ibcStore c' = ibcStore c0 \<and> stakingStore c' = stakingStore c0)"
proof (rule conjI)
  show "ExportAppStateAndValidators X app (c\<lparr>ibcStore := i, stakingStore := s\<rparr>)
     = ExportAppStateAndValidators X app c"
    by (simp add: ExportAppStateAndValidators_def exportGenState_frame)
next
  have "ibcStore c' = ibcStore c0 \<and> stakingStore c' = stakingStore c0"
    if run: "initChainerFn E app ck pk c0 req = Inr (c', r)" for c' r
  proof -
    from initChainerFn_Inr[OF run] obtain gs c1 v2 v3 where
      "UnmarshalJSON E (cdc app) (AppStateBytes req) = Inr gs"
      and c1: "init_accounts E (accountKeeper app) c0 (Accounts gs) = Inr c1"
      and c': "c' = put_pow_view v3 (put_cool_view v2 c1)"
      by blast
    from init_accounts_frame[OF c1] c' show ?thesis
      by (simp add: put_pow_view_def put_cool_view_def)
  qed
  then show "\<forall>c' r. initChainerFn E app ck pk c0 req = Inr (c', r)
        \<longrightarrow> ibcStore c' = ibcStore c0 \<and> stakingStore c' = stakingStore c0"
    by blast
qed

theorem export_omits_ibc_and_staking_witness:
  "ExportAppStateAndValidators (spec_export_env example_encode) example_app
     ((fresh_ctx ''ice-cold'' (1, 0))
        \<lparr>ibcStore := [(''egress/0'', ''packet'')], stakingStore := [(''bond/1'', ''10'')]\<rparr>)
     = ExportAppStateAndValidators (spec_export_env example_encode) example_app
         (fresh_ctx ''ice-cold'' (1, 0))
   \<and> initChainerFn (spec_init_env (example_decode example_genesis_dup)) example_app
       (coolKeeper example_app) (powKeeper example_app) (fresh_ctx [] (0, 0)) example_request
     = Inr (\<lparr>accountStore = [(1, \<lparr>acc_address = 1, acc_coins = [], acc_sequence = 0\<rparr>)],
             mainStore = ''ice-cold'', powStore = (1, 0), ibcStore = [], stakingStore = []\<rparr>,
            ResponseInitChain)
   \<and> ibcStore \<lparr>accountStore = [(1, \<lparr>acc_address = 1, acc_coins = [], acc_sequence = 0\<rparr>)],
             mainStore = ''ice-cold'', powStore = (1::nat, 0::nat), ibcStore = [],
             stakingStore = []\<rparr>
       = ibcStore (fresh_ctx ([]::string) (0::nat, 0::nat))"
proof -
  let ?Es = "spec_init_env (example_decode example_genesis_dup)"
  let ?c' = "\<lparr>accountStore = [(1, \<lparr>acc_address = 1, acc_coins = [], acc_sequence = 0\<rparr>)],
             mainStore = ''ice-cold'', powStore = (1::nat, 0::nat), ibcStore = [],
             stakingStore = []\<rparr>"
  note T = export_omits_ibc_and_staking[where X = "spec_export_env example_encode"
      and app = example_app and c = "fresh_ctx ''ice-cold'' (1, 0)"
      and i = "[(''egress/0'', ''packet'')]" and s = "[(''bond/1'', ''10'')]"
      and E = ?Es and ck = "coolKeeper example_app" and pk = "powKeeper example_app"
      and ?c0.0 = "fresh_ctx [] (0, 0)" and req = example_request]
  have run: "initChainerFn ?Es example_app (coolKeeper example_app) (powKeeper example_app)
      (fresh_ctx [] (0, 0)) example_request = Inr (?c', ResponseInitChain)"
    by (simp add: initChainerFn_def fatal_bind_def spec_init_env_def example_decode_def
      example_genesis_dup_def ToAppAccount_spec_def SetAccount_def GetAddress_def fresh_ctx_def
      module_InitGenesis_spec_def cool_view_def pow_view_def put_cool_view_def put_pow_view_def)
  have frame: "ibcStore ?c' = ibcStore (fresh_ctx ([]::string) (0::nat, 0::nat))"
    using T[THEN conjunct2, rule_format, OF run] by (rule conjunct1)
  show ?thesis
    using T[THEN conjunct1] run frame by (intro conjI)
qed

section \<open>The ante handler gates dispatch\<close>

lemma dispatch_no_ante: "\<forall>e\<in>set (snd (dispatch rh b s t)). \<not> is_ante e"
  by (simp add: dispatch_def split: option.splits)

text \<open>
  C6. In an application returned by \<^verbatim>\<open>NewDemocoinApp\<close>, processing a transaction invokes
  the ante handler installed at construction (\<^verbatim>\<open>auth.NewAnteHandler\<close> over the account
  keeper and the fee collection keeper) first and exactly once: it is the first
  invocation, and none of the later ones is an ante invocation. If the ante handler fails,
  the transaction is rejected with the ante handler's error and no route handler is
  invoked. If it succeeds, dispatch runs on the state it returns. The transaction path
  follows the spec.
\<close>

theorem ante_handler_gates_dispatch:
  assumes "NewDemocoinApp K load lg db = Inr app"
  shows "(\<exists>rest. snd (runTx run_ante run_handler (BaseApp app) s t)
              = AnteInvoked (AuthAnteHandler (accountKeeper app) (feeCollectionKeeper app)) # rest
            \<and> (\<forall>e\<in>set rest. \<not> is_ante e))
         \<and> (\<forall>err. run_ante (AuthAnteHandler (accountKeeper app) (feeCollectionKeeper app)) s t
                  = Inl err
              \<longrightarrow> runTx run_ante run_handler (BaseApp app) s t
                  = (Inl err,
                     [AnteInvoked (AuthAnteHandler (accountKeeper app) (feeCollectionKeeper app))]))
         \<and> (\<forall>s1. run_ante (AuthAnteHandler (accountKeeper app) (feeCollectionKeeper app)) s t
                  = Inr s1
              \<longrightarrow> runTx run_ante run_handler (BaseApp app) s t
                  = (fst (dispatch run_handler (BaseApp app) s1 t),
                     AnteInvoked (AuthAnteHandler (accountKeeper app) (feeCollectionKeeper app))
                       # snd (dispatch run_handler (BaseApp app) s1 t)))"
proof -
  let ?ah = "AuthAnteHandler (accountKeeper app) (feeCollectionKeeper app)"
  note ah = NewDemocoinApp_Inr(7)[OF assms]
  show ?thesis
  proof (cases "run_ante ?ah s t")
    case (Inl err)
    then show ?thesis by (simp add: runTx_def ah)
  next
    case (Inr s1)
    then show ?thesis
      using dispatch_no_ante[of run_handler "BaseApp app" s1 t]
      by (simp add: runTx_def ah split: prod.splits)
  qed
qed

theorem ante_handler_gates_dispatch_witness:
  "runTx example_ante_reject example_run_handler (BaseApp example_app) 0 example_tx
     = (Inl ''insufficient fee'',
        [AnteInvoked (AuthAnteHandler (accountKeeper example_app)
           (feeCollectionKeeper example_app))])
   \<and> runTx example_ante_ok example_run_handler (BaseApp example_app) 0 example_tx
     = (Inr 11,
        [AnteInvoked (AuthAnteHandler (accountKeeper example_app)
           (feeCollectionKeeper example_app)),
         HandlerInvoked ''bank'' (BankHandler (bankKeeper example_app))])"
proof
  show "runTx example_ante_reject example_run_handler (BaseApp example_app) 0 example_tx
     = (Inl ''insufficient fee'',
        [AnteInvoked (AuthAnteHandler (accountKeeper example_app)
           (feeCollectionKeeper example_app))])"
    using ante_handler_gates_dispatch[OF example_app_constructed,
        where run_ante = example_ante_reject and s = 0 and t = example_tx
          and run_handler = example_run_handler]
    by (simp add: example_ante_reject_def)
  show "runTx example_ante_ok example_run_handler (BaseApp example_app) 0 example_tx
     = (Inr 11,
        [AnteInvoked (AuthAnteHandler (accountKeeper example_app)
           (feeCollectionKeeper example_app)),
         HandlerInvoked ''bank'' (BankHandler (bankKeeper example_app))])"
    using ante_handler_gates_dispatch[OF example_app_constructed,
        where run_ante = example_ante_ok and s = 0 and t = example_tx
          and run_handler = example_run_handler]
    by (simp add: example_ante_ok_def example_run_handler_def example_tx_def dispatch_def
        NewDemocoinApp_Inr(6)[OF example_app_constructed])
qed

end
